theory Spec2Isabelle
  imports Main "HOL-Library.Sublist"
begin

section \<open>The host: exceptions, file system, process environment\<close>

text \<open>
  The exceptions that the code of \<^verbatim>\<open>fpgaperf.py\<close> can raise are Python's built-in ones:
  a failed \<^verbatim>\<open>assert\<close> is \<open>AssertionError\<close>; \<^verbatim>\<open>open\<close> raises \<open>FileNotFoundError\<close> for
  an absent path, \<open>NotADirectoryError\<close> for a path below a regular file and
  \<open>IsADirectoryError\<close> for a directory; \<^verbatim>\<open>os.environ["PATH"]\<close> and \<^verbatim>\<open>toolchains[name]\<close> on
  a missing key are \<open>KeyError\<close>; an index past the end of a list is \<open>IndexError\<close>; a
  call with the wrong number or type of arguments is \<open>TypeError\<close>; the use of a name
  that the module binds nowhere is \<open>NameError\<close>. The next three are the errors that the
  specification names for the parts outside this file and that nothing in this file
  raises: \<open>ToolFailure\<close> is the fatal non-zero exit of the command runner,
  \<open>UnsupportedTargetError\<close> the rejection of a target by the configuration step,
  \<open>ReportMissingError\<close> the absence of a report. \<open>OtherError\<close> stands for whatever
  a collaborator outside this file raises.
\<close>

datatype error =
    AssertionError
  | FileNotFoundError
  | NotADirectoryError
  | IsADirectoryError
  | KeyError
  | IndexError
  | TypeError
  | NameError
  | ToolFailure
  | UnsupportedTargetError
  | ReportMissingError
  | OtherError string

text \<open>
  A path of the file system names a directory or a regular file; a file has its
  execute permission (what \<^verbatim>\<open>os.access(p, os.X_OK)\<close> answers) and its lines (what
  iterating over the opened file yields, each with its line end). Paths are looked up as
  they are written.
\<close>

datatype node = Dir | File bool "string list"

text \<open>
  One external command as the adapter hands it to the command runner: the program, the
  argument string, the \<^verbatim>\<open>env=\<close> argument (\<open>None\<close> when the call passes none), the
  environment the process then receives, and the timing stages open at that moment
  (innermost first).
\<close>

record spawn =
  program :: string
  argstr :: string
  env_arg :: "(string \<rightharpoonup> string) option"
  penv :: "string \<rightharpoonup> string"
  stages :: "string list"

record world =
  environ :: "string \<rightharpoonup> string"
  fs :: "string \<rightharpoonup> node"
  spawned :: "spawn list"
  clock :: nat
  stdout :: "string list"

definition os_path_exists :: "world \<Rightarrow> string \<Rightarrow> bool" where
  "os_path_exists w p = (fs w p \<noteq> None)"

definition os_path_isfile :: "world \<Rightarrow> string \<Rightarrow> bool" where
  "os_path_isfile w p = (case fs w p of Some (File x ls) \<Rightarrow> True | _ \<Rightarrow> False)"

definition os_access_X_OK :: "world \<Rightarrow> string \<Rightarrow> bool" where
  "os_access_X_OK w p = (case fs w p of Some (File x ls) \<Rightarrow> x | Some Dir \<Rightarrow> True | None \<Rightarrow> False)"

text \<open>
  The proper prefixes of a path that stand before one of its slashes: the directories
  that the path goes through. The first argument is the part of the path already read.
\<close>

fun ancestors_from :: "string \<Rightarrow> string \<Rightarrow> string list" where
  "ancestors_from pre [] = []"
| "ancestors_from pre (c # cs) =
     (if c = CHR ''/'' \<and> pre \<noteq> [] then pre # ancestors_from (pre @ [c]) cs
      else ancestors_from (pre @ [c]) cs)"

definition under_file :: "world \<Rightarrow> string \<Rightarrow> bool" where
  "under_file w p =
     list_ex (\<lambda>q. case fs w q of Some (File x ls) \<Rightarrow> True | _ \<Rightarrow> False) (ancestors_from [] p)"

text \<open>
  \<^verbatim>\<open>open(path)\<close> for reading, as far as the code depends on it: a path that goes through
  a regular file gives \<open>NotADirectoryError\<close>, an absent one \<open>FileNotFoundError\<close>, a
  directory \<open>IsADirectoryError\<close>, a file its lines.
\<close>

definition open_read :: "world \<Rightarrow> string \<Rightarrow> error + string list" where
  "open_read w p =
     (if under_file w p then Inl NotADirectoryError
      else (case fs w p of
              None \<Rightarrow> Inl FileNotFoundError
            | Some Dir \<Rightarrow> Inl IsADirectoryError
            | Some (File x ls) \<Rightarrow> Inr ls))"

section \<open>Strings and paths of the Python library\<close>

text \<open>\<^verbatim>\<open>s.split(sep)\<close> with a one-character separator: empty fields are kept.\<close>

fun split_on :: "char \<Rightarrow> string \<Rightarrow> string list" where
  "split_on c [] = [[]]"
| "split_on c (x # xs) =
     (if x = c then [] # split_on c xs
      else (case split_on c xs of
              [] \<Rightarrow> [[x]]
            | y # ys \<Rightarrow> (x # y) # ys))"

text \<open>\<^verbatim>\<open>sep.join(xs)\<close>.\<close>

fun join_str :: "string \<Rightarrow> string list \<Rightarrow> string" where
  "join_str sep [] = []"
| "join_str sep [x] = x"
| "join_str sep (x # y # ys) = x @ sep @ join_str sep (y # ys)"

text \<open>
  \<^verbatim>\<open>os.path.split\<close> of posixpath: the tail is what follows the last slash, the head what
  precedes it, without its trailing slashes unless it consists of slashes only.
\<close>

definition os_path_split :: "string \<Rightarrow> string \<times> string" where
  "os_path_split p =
     (let tail = rev (takeWhile (\<lambda>c. c \<noteq> CHR ''/'') (rev p));
          head = take (length p - length tail) p
      in if head \<noteq> [] \<and> head \<noteq> replicate (length head) (CHR ''/'')
         then (rev (dropWhile (\<lambda>c. c = CHR ''/'') (rev head)), tail)
         else (head, tail))"

text \<open>\<^verbatim>\<open>os.path.join(a, b)\<close> of posixpath, for two components.\<close>

definition os_path_join :: "string \<Rightarrow> string \<Rightarrow> string" where
  "os_path_join a b =
     (if b \<noteq> [] \<and> hd b = CHR ''/'' then b
      else if a = [] \<or> last a = CHR ''/'' then a @ b
      else a @ ''/'' @ b)"

text \<open>\<^verbatim>\<open>s.find(sub)\<close>: the lowest index where \<open>sub\<close> occurs in \<open>s\<close>, or \<open>-1\<close>.\<close>

fun py_find :: "string \<Rightarrow> string \<Rightarrow> int" where
  "py_find [] sub = (if sub = [] then 0 else - 1)"
| "py_find (c # s) sub =
     (if prefix sub (c # s) then 0
      else (let r = py_find s sub in if r < 0 then - 1 else r + 1))"

text \<open>
  A character is a code point below 256. These are the ones that \<^verbatim>\<open>str.isspace\<close>
  accepts, which \<^verbatim>\<open>split()\<close> and \<^verbatim>\<open>strip()\<close> treat as white space; the white space of
  Unicode from U+1680 on is outside the character type.
\<close>

definition py_isspace :: "char \<Rightarrow> bool" where
  "py_isspace c = (c \<in> set [CHR 0x09, CHR 0x0A, CHR 0x0B, CHR 0x0C, CHR 0x0D,
                             CHR 0x1C, CHR 0x1D, CHR 0x1E, CHR 0x1F, CHR 0x20,
                             CHR 0x85, CHR 0xA0])"



definition py_strip :: "string \<Rightarrow> string" where
  "py_strip s = rev (dropWhile py_isspace (rev (dropWhile py_isspace s)))"

text \<open>\<^verbatim>\<open>xs[1]\<close>.\<close>

definition index1 :: "'a list \<Rightarrow> error + 'a" where
  "index1 xs = (case xs of _ # y # _ \<Rightarrow> Inr y | _ \<Rightarrow> Inl IndexError)"

section \<open>Module constants\<close>

text \<open>
  \<^verbatim>\<open>root_dir\<close> is the directory of the script; the two installation directories are read
  from the environment once, when the classes are defined, with a fixed default.
\<close>

record module_consts =
  root_dir :: string
  ICECUBEDIR_DEFAULT :: string
  RADIANTDIR_DEFAULT :: string

definition os_getenv :: "(string \<rightharpoonup> string) \<Rightarrow> string \<Rightarrow> string \<Rightarrow> string" where
  "os_getenv env k dflt = (case env k of None \<Rightarrow> dflt | Some v \<Rightarrow> v)"

definition load_module :: "string \<Rightarrow> (string \<rightharpoonup> string) \<Rightarrow> module_consts" where
  "load_module dir env =
     \<lparr> root_dir = dir,
       ICECUBEDIR_DEFAULT = os_getenv env ''ICECUBEDIR'' ''/opt/lscc/iCEcube2.2017.08'',
       RADIANTDIR_DEFAULT = os_getenv env ''RADIANTDIR'' ''/opt/lscc/radiant/1.0'' \<rparr>"

definition project_dir :: "module_consts \<Rightarrow> string" where
  "project_dir m = root_dir m @ ''/project''"

definition src_dir :: "module_consts \<Rightarrow> string" where
  "src_dir m = root_dir m @ ''/src''"

section \<open>Capability probing\<close>

definition is_exe :: "world \<Rightarrow> string \<Rightarrow> bool" where
  "is_exe w fpath = (os_path_isfile w fpath \<and> os_access_X_OK w fpath)"

definition which :: "world \<Rightarrow> string \<Rightarrow> error + string option" where
  "which w prog =
     (case os_path_split prog of (fpath, fname) \<Rightarrow>
        if fpath \<noteq> [] then (if is_exe w prog then Inr (Some prog) else Inr None)
        else (case environ w ''PATH'' of
                None \<Rightarrow> Inl KeyError
              | Some p \<Rightarrow>
                  Inr (List.find (is_exe w)
                         (map (\<lambda>path. os_path_join path prog) (split_on (CHR '':'') p)))))"

definition have_exec :: "world \<Rightarrow> string \<Rightarrow> error + bool" where
  "have_exec w mybin = (case which w mybin of Inl e \<Rightarrow> Inl e | Inr r \<Rightarrow> Inr (r \<noteq> None))"

text \<open>
  A capability report is the dictionary that \<^verbatim>\<open>check_env\<close> returns, in insertion order.
  The values of a dictionary display are computed from left to right, so the first
  one that raises decides.
\<close>

type_synonym capability = "(string \<times> bool) list"

definition Icecube2Synpro_check_env :: "module_consts \<Rightarrow> world \<Rightarrow> error + capability" where
  "Icecube2Synpro_check_env m w =
     (let d = os_path_exists w (ICECUBEDIR_DEFAULT m) in
      (case have_exec w ''icetime'' of
         Inl e \<Rightarrow> Inl e
       | Inr i \<Rightarrow> Inr [(''ICECUBEDIR'', d), (''icetime'', i)]))"

definition Icecube2LSE_check_env :: "module_consts \<Rightarrow> world \<Rightarrow> error + capability" where
  "Icecube2LSE_check_env m w =
     (let d = os_path_exists w (ICECUBEDIR_DEFAULT m) in
      (case have_exec w ''icetime'' of
         Inl e \<Rightarrow> Inl e
       | Inr i \<Rightarrow> Inr [(''ICECUBEDIR'', d), (''icetime'', i)]))"

definition Icecube2Yosys_check_env :: "module_consts \<Rightarrow> world \<Rightarrow> error + capability" where
  "Icecube2Yosys_check_env m w =
     (case have_exec w ''yosys'' of
        Inl e \<Rightarrow> Inl e
      | Inr y \<Rightarrow>
          (let d = os_path_exists w (ICECUBEDIR_DEFAULT m) in
           (case have_exec w ''icetime'' of
              Inl e \<Rightarrow> Inl e
            | Inr i \<Rightarrow> Inr [(''yosys'', y), (''ICECUBEDIR'', d), (''icetime'', i)])))"

definition Radiant_check_env :: "module_consts \<Rightarrow> world \<Rightarrow> error + capability" where
  "Radiant_check_env m w =
     (let d = os_path_exists w (RADIANTDIR_DEFAULT m) in
      (case have_exec w ''iceunpack'' of
         Inl e \<Rightarrow> Inl e
       | Inr u \<Rightarrow>
           (case have_exec w ''icetime'' of
              Inl e \<Rightarrow> Inl e
            | Inr i \<Rightarrow> Inr [(''RADIANTDIR'', d), (''iceunpack'', u), (''icetime'', i)])))"

section \<open>The registry of toolchains\<close>

text \<open>
  The classes of this file are the three iCEcube2 and the three Radiant variants; the
  other five registered classes come from modules outside this file.
\<close>

datatype icecube2_class = Icecube2Synpro | Icecube2LSE | Icecube2Yosys

datatype radiant_class = RadiantLSE | RadiantSynpro | RadiantYosys

datatype tc_class =
    Vivado | VivadoYosys | Arachne | VPR | Nextpnr
  | Icecube2 icecube2_class
  | Radiant radiant_class

definition toolchains :: "(string \<times> tc_class) list" where
  "toolchains =
     [(''vivado'', Vivado),
      (''vivado-yosys'', VivadoYosys),
      (''arachne'', Arachne),
      (''vpr'', VPR),
      (''nextpnr'', Nextpnr),
      (''icecube2-synpro'', Icecube2 Icecube2Synpro),
      (''icecube2-lse'', Icecube2 Icecube2LSE),
      (''icecube2-yosys'', Icecube2 Icecube2Yosys),
      (''radiant-synpro'', Radiant RadiantSynpro),
      (''radiant-lse'', Radiant RadiantLSE)]"

text \<open>
  \<^verbatim>\<open>tc.check_env()\<close> by class. The three Radiant variants inherit the method of their
  base class; \<open>other\<close> is the method of the classes defined outside this file.
\<close>

fun check_env_of ::
  "(tc_class \<Rightarrow> world \<Rightarrow> error + capability) \<Rightarrow> module_consts \<Rightarrow> tc_class \<Rightarrow> world
     \<Rightarrow> error + capability" where
  "check_env_of other m (Icecube2 Icecube2Synpro) w = Icecube2Synpro_check_env m w"
| "check_env_of other m (Icecube2 Icecube2LSE) w = Icecube2LSE_check_env m w"
| "check_env_of other m (Icecube2 Icecube2Yosys) w = Icecube2Yosys_check_env m w"
| "check_env_of other m (Radiant r) w = Radiant_check_env m w"
| "check_env_of other m c w = other c w"

text \<open>The inner loop of \<^verbatim>\<open>env_ready\<close>: does it reach \<^verbatim>\<open>return False\<close>?\<close>

fun has_unmet :: "bool list \<Rightarrow> bool" where
  "has_unmet [] = False"
| "has_unmet (v # vs) = (if \<not> v then True else has_unmet vs)"

fun env_ready_loop ::
  "(tc_class \<Rightarrow> world \<Rightarrow> error + capability) \<Rightarrow> module_consts \<Rightarrow> world \<Rightarrow> tc_class list
     \<Rightarrow> error + bool" where
  "env_ready_loop other m w [] = Inr True"
| "env_ready_loop other m w (tc # tcs) =
     (case check_env_of other m tc w of
        Inl e \<Rightarrow> Inl e
      | Inr d \<Rightarrow> if has_unmet (map snd d) then Inr False
                 else env_ready_loop other m w tcs)"

definition env_ready ::
  "(tc_class \<Rightarrow> world \<Rightarrow> error + capability) \<Rightarrow> module_consts \<Rightarrow> world \<Rightarrow> error + bool" where
  "env_ready other m w = env_ready_loop other m w (map snd toolchains)"

section \<open>Constraint files\<close>

definition get_constraint ::
  "module_consts \<Rightarrow> world \<Rightarrow> string \<Rightarrow> string \<Rightarrow> string \<Rightarrow> string \<Rightarrow> string \<Rightarrow> string
     \<Rightarrow> string option" where
  "get_constraint m w project family device package toolchain extension =
     (let path = src_dir m @ ''/'' @ project @ ''/'' @ family @ ''/'' @ device @ package @ ''/''
                 @ toolchain @ ''.'' @ extension
      in if os_path_exists w path then Some path else None)"

definition get_pcf ::
  "module_consts \<Rightarrow> world \<Rightarrow> string \<Rightarrow> string \<Rightarrow> string \<Rightarrow> string \<Rightarrow> string \<Rightarrow> string option" where
  "get_pcf m w project family device package toolchain =
     get_constraint m w project family device package toolchain ''pcf''"

definition get_sdc ::
  "module_consts \<Rightarrow> world \<Rightarrow> string \<Rightarrow> string \<Rightarrow> string \<Rightarrow> string \<Rightarrow> string \<Rightarrow> string option" where
  "get_sdc m w project family device package toolchain =
     get_constraint m w project family device package toolchain ''sdc''"

definition get_xdc ::
  "module_consts \<Rightarrow> world \<Rightarrow> string \<Rightarrow> string \<Rightarrow> string \<Rightarrow> string \<Rightarrow> string \<Rightarrow> string option" where
  "get_xdc m w project family device package toolchain =
     get_constraint m w project family device package toolchain ''xdc''"

section \<open>The adapter object\<close>

text \<open>
  The attributes of a toolchain object that this file reads or writes. The base class
  \<^verbatim>\<open>Toolchain\<close> itself lives in another module. \<open>open_stages\<close> is the stack of timing
  stages currently open on the object (innermost first); \<open>runtimes\<close> holds one entry
  per closed stage: the stage name followed by the names of the stages that enclosed it,
  and the elapsed time. The attribute \<^verbatim>\<open>top\<close> is the field \<open>top_module\<close>.
\<close>

record Toolchain =
  verbose :: bool
  strategy :: "string option"
  seed :: "int option"
  carry :: "bool option"
  pcf :: "string option"
  sdc :: "string option"
  xdc :: "string option"
  build :: "string option"
  toolchain :: "string option"
  family :: string
  device :: string
  package :: string
  srcs :: "string list"
  top_module :: string
  out_dir :: string
  runtimes :: "(string list \<times> nat) list"
  open_stages :: "string list"

section \<open>The run orchestrator\<close>

text \<open>
  What \<^verbatim>\<open>run\<close> calls outside this file: the constructors, \<^verbatim>\<open>project\<close> and \<^verbatim>\<open>run\<close>
  methods of the five classes imported from other modules, \<^verbatim>\<open>write_metadata\<close> of the
  base class, \<^verbatim>\<open>os.path.realpath\<close>, \<^verbatim>\<open>json.load\<close>, and the rendering of the statistics
  tables. They are parameters of the model.
\<close>

typedecl json

record collab =
  c_check_env :: "tc_class \<Rightarrow> world \<Rightarrow> error + capability"
  c_new :: "tc_class \<Rightarrow> string \<Rightarrow> world \<Rightarrow> (error + Toolchain) \<times> world"
  c_project ::
    "json \<Rightarrow> string \<Rightarrow> string \<Rightarrow> string \<Rightarrow> string option \<Rightarrow> string option
       \<Rightarrow> Toolchain \<Rightarrow> world \<Rightarrow> (error + Toolchain) \<times> world"
  c_run :: "Toolchain \<Rightarrow> world \<Rightarrow> (error + Toolchain) \<times> world"
  c_print_stats :: "Toolchain \<Rightarrow> world \<Rightarrow> (error + Toolchain) \<times> world"
  c_write_metadata :: "Toolchain \<Rightarrow> world \<Rightarrow> (error + unit) \<times> world"
  c_realpath :: "world \<Rightarrow> string \<Rightarrow> string"
  c_json_load :: "string list \<Rightarrow> error + json"

text \<open>
  \<^verbatim>\<open>toolchains[toolchain](root_dir)\<close>. The constructors of the iCEcube2 and Radiant classes
  take no argument besides \<^verbatim>\<open>self\<close>, so calling them with \<^verbatim>\<open>root_dir\<close> raises
  \<open>TypeError\<close>.
\<close>

fun construct :: "collab \<Rightarrow> tc_class \<Rightarrow> string \<Rightarrow> world \<Rightarrow> (error + Toolchain) \<times> world" where
  "construct X (Icecube2 k) rd w = (Inl TypeError, w)"
| "construct X (Radiant k) rd w = (Inl TypeError, w)"
| "construct X c rd w = c_new X c rd w"

definition get_project :: "collab \<Rightarrow> module_consts \<Rightarrow> world \<Rightarrow> string \<Rightarrow> error + json" where
  "get_project X m w name =
     (case open_read w (project_dir m @ ''/'' @ name @ ''.json'') of
        Inl e \<Rightarrow> Inl e
      | Inr f \<Rightarrow> c_json_load X f)"

text \<open>Truth value of an optional string in a condition: \<^verbatim>\<open>None\<close> and \<^verbatim>\<open>''\<close> are false.\<close>

definition truthy :: "string option \<Rightarrow> bool" where
  "truthy s = (case s of None \<Rightarrow> False | Some v \<Rightarrow> v \<noteq> [])"

text \<open>\<^verbatim>\<open>os.path.realpath(p)\<close>: of \<^verbatim>\<open>None\<close> it raises \<open>TypeError\<close>.\<close>

definition realpath_opt :: "(string \<Rightarrow> string) \<Rightarrow> string option \<Rightarrow> error + string" where
  "realpath_opt rp p = (case p of None \<Rightarrow> Inl TypeError | Some v \<Rightarrow> Inr (rp v))"

text \<open>
  The three assignments of \<^verbatim>\<open>run\<close> that store the constraint paths in the adapter:
  \<^verbatim>\<open>
    t.pcf = os.path.realpath(pcf) if pcf else None
    t.sdc = os.path.realpath(sdc) if sdc else None
    t.xdc = os.path.realpath(xdc) if sdc else None
  \<close>
  The arguments are the results of \<^verbatim>\<open>get_pcf\<close>, \<^verbatim>\<open>get_sdc\<close> and \<^verbatim>\<open>get_xdc\<close>.
\<close>

definition run_constraints ::
  "(string \<Rightarrow> string) \<Rightarrow> string option \<Rightarrow> string option \<Rightarrow> string option \<Rightarrow> Toolchain
     \<Rightarrow> error + Toolchain" where
  "run_constraints rp p s x t =
     (case (if truthy p then map_sum id Some (realpath_opt rp p) else Inr None) of
        Inl e \<Rightarrow> Inl e
      | Inr vp \<Rightarrow>
     (case (if truthy s then map_sum id Some (realpath_opt rp s) else Inr None) of
        Inl e \<Rightarrow> Inl e
      | Inr vs \<Rightarrow>
     (case (if truthy s then map_sum id Some (realpath_opt rp x) else Inr None) of
        Inl e \<Rightarrow> Inl e
      | Inr vx \<Rightarrow> Inr (t\<lparr>pcf := vp, sdc := vs, xdc := vx\<rparr>))))"

text \<open>\<^verbatim>\<open>run\<close> after its entry assertions.\<close>

definition run_body ::
  "collab \<Rightarrow> module_consts \<Rightarrow> string \<Rightarrow> string \<Rightarrow> string \<Rightarrow> string \<Rightarrow> string
     \<Rightarrow> string option \<Rightarrow> string option \<Rightarrow> bool \<Rightarrow> string option \<Rightarrow> int option
     \<Rightarrow> bool option \<Rightarrow> string option \<Rightarrow> world \<Rightarrow> (error + unit) \<times> world" where
  "run_body X m fam dev pkg tcn prj odir oprefix vb strat sd cy bld w =
     (case map_of toolchains tcn of
        None \<Rightarrow> (Inl KeyError, w)
      | Some c \<Rightarrow>
     (case construct X c (root_dir m) w of
        (Inl e, w1) \<Rightarrow> (Inl e, w1)
      | (Inr t0, w1) \<Rightarrow>
     (let t1 = t0\<lparr>verbose := vb, strategy := strat, seed := sd, carry := cy\<rparr>;
          p = get_pcf m w1 prj fam dev pkg tcn;
          s = get_sdc m w1 prj fam dev pkg tcn;
          x = get_xdc m w1 prj fam dev pkg tcn
      in
     (case run_constraints (c_realpath X w1) p s x t1 of
        Inl e \<Rightarrow> (Inl e, w1)
      | Inr t2 \<Rightarrow>
     (let t3 = t2\<lparr>build := bld\<rparr> in
     (case get_project X m w1 prj of
        Inl e \<Rightarrow> (Inl e, w1)
      | Inr pd \<Rightarrow>
     (case c_project X pd fam dev pkg odir oprefix t3 w1 of
        (Inl e, w2) \<Rightarrow> (Inl e, w2)
      | (Inr t4, w2) \<Rightarrow>
     (case c_run X t4 w2 of
        (Inl e, w3) \<Rightarrow> (Inl e, w3)
      | (Inr t5, w3) \<Rightarrow>
     (case c_print_stats X t5 w3 of
        (Inl e, w4) \<Rightarrow> (Inl e, w4)
      | (Inr t6, w4) \<Rightarrow> c_write_metadata X t6 w4)))))))))"

text \<open>
  \<^verbatim>\<open>run\<close>: the six assertions, in the order of the source, then the body. An argument
  that may be \<^verbatim>\<open>None\<close> is an option.
\<close>

definition run ::
  "collab \<Rightarrow> module_consts \<Rightarrow> string option \<Rightarrow> string option \<Rightarrow> string option
     \<Rightarrow> string option \<Rightarrow> string option
     \<Rightarrow> string option \<Rightarrow> string option \<Rightarrow> bool \<Rightarrow> string option \<Rightarrow> int option
     \<Rightarrow> bool option \<Rightarrow> string option \<Rightarrow> world \<Rightarrow> (error + unit) \<times> world" where
  "run X m fam dev pkg tcn prj odir oprefix vb strat sd cy bld w =
     (if \<not> (fam = Some ''ice40'' \<or> fam = Some ''xc7'') then (Inl AssertionError, w)
      else
     (case dev of None \<Rightarrow> (Inl AssertionError, w) | Some dev' \<Rightarrow>
     (case pkg of None \<Rightarrow> (Inl AssertionError, w) | Some pkg' \<Rightarrow>
     (case tcn of None \<Rightarrow> (Inl AssertionError, w) | Some tcn' \<Rightarrow>
     (case prj of None \<Rightarrow> (Inl AssertionError, w) | Some prj' \<Rightarrow>
        if \<not> (case sd of None \<Rightarrow> True | Some n \<Rightarrow> 1 \<le> n \<and> n \<le> 0x7FFFFFFF)
        then (Inl AssertionError, w)
        else run_body X m (case fam of Some f \<Rightarrow> f | None \<Rightarrow> []) dev' pkg' tcn' prj'
               odir oprefix vb strat sd cy bld w)))))"

section \<open>Timing harness and command runner\<close>

text \<open>
  The behaviour of an external program: from the program, its argument string, the
  environment it receives and the file system, its exit status (\<open>True\<close> for zero), the
  file system it leaves and the time it took. A child process cannot change the
  environment of its parent.
\<close>

type_synonym process =
  "string \<Rightarrow> string \<Rightarrow> (string \<rightharpoonup> string) \<Rightarrow> (string \<rightharpoonup> node)
     \<Rightarrow> bool \<times> (string \<rightharpoonup> node) \<times> nat"

text \<open>
  Modelled from the spec: the context manager \<^verbatim>\<open>Timed\<close> of the module \<^verbatim>\<open>utils\<close>, which
  is not part of this file. On entry it notes the time and opens the stage; on exit, also
  when the body raised, it records the elapsed time under the stage name (inside the
  enclosing stages, if any) and lets the exception of the body pass.
\<close>

definition Timed ::
  "string \<Rightarrow>
   ('a Toolchain_scheme \<Rightarrow> world \<Rightarrow> (error + unit) \<times> 'a Toolchain_scheme \<times> world) \<Rightarrow>
   'a Toolchain_scheme \<Rightarrow> world \<Rightarrow> (error + unit) \<times> 'a Toolchain_scheme \<times> world" where
  "Timed name body t w =
     (let start = clock w; outer = open_stages t in
      case body (t\<lparr>open_stages := name # outer\<rparr>) w of
        (r, t1, w1) \<Rightarrow>
          (r, t1\<lparr>open_stages := outer,
                 runtimes := runtimes t1 @ [(name # outer, clock w1 - start)]\<rparr>, w1))"

text \<open>
  Modelled from the spec: the method \<^verbatim>\<open>cmd(program, argstr, env=None)\<close> of the base class
  \<^verbatim>\<open>Toolchain\<close>, which is not part of this file. It runs one external process and waits
  for it; the process receives the \<^verbatim>\<open>env\<close> argument as its environment, or the ambient
  environment when the call passes none; a non-zero exit status is fatal.
\<close>

definition cmd ::
  "process \<Rightarrow> string \<Rightarrow> string \<Rightarrow> (string \<rightharpoonup> string) option \<Rightarrow>
   'a Toolchain_scheme \<Rightarrow> world \<Rightarrow> (error + unit) \<times> 'a Toolchain_scheme \<times> world" where
  "cmd ex prog args env t w =
     (let pe = (case env of None \<Rightarrow> environ w | Some e \<Rightarrow> e);
          sp = \<lparr> program = prog, argstr = args, env_arg = env, penv = pe,
                 stages = open_stages t \<rparr>
      in case ex prog args pe (fs w) of
           (ok, fs1, dt) \<Rightarrow>
             (if ok then Inr () else Inl ToolFailure, t,
              w\<lparr>fs := fs1, spawned := spawned w @ [sp], clock := clock w + dt\<rparr>))"

section \<open>The iCEcube2 adapters\<close>

record Icecube2_obj = Toolchain +
  icecubedir :: string
  icecube2_cls :: icecube2_class

fun Icecube2_syn :: "icecube2_class \<Rightarrow> string" where
  "Icecube2_syn Icecube2Synpro = ''synpro''"
| "Icecube2_syn Icecube2LSE = ''lse''"
| "Icecube2_syn Icecube2Yosys = ''yosys-synpro''"

definition Icecube2_run ::
  "process \<Rightarrow> module_consts \<Rightarrow> Icecube2_obj \<Rightarrow> world
     \<Rightarrow> (error + unit) \<times> Icecube2_obj \<times> world" where
  "Icecube2_run ex m t w =
     (case Timed ''bit-all''
             (\<lambda>t w.
                let w1 = w\<lparr>stdout := stdout w @ [''top: '' @ top_module t]\<rparr>;
                    env = (environ w1)
                            (''SRCS'' \<mapsto> join_str '' '' (srcs t),
                             ''TOP'' \<mapsto> top_module t,
                             ''ICECUBEDIR'' \<mapsto> icecubedir t,
                             ''ICEDEV'' \<mapsto> device t @ ''-'' @ package t);
                    args = ''--syn '' @ Icecube2_syn (icecube2_cls t);
                    args = (if truthy (strategy t)
                            then args @ '' --strategy '' @ (case strategy t of Some s \<Rightarrow> s | None \<Rightarrow> [])
                            else args)
                in case cmd ex (root_dir m @ ''/icecubed.sh'') args (Some env) t w1 of
                     (Inl e, t1, w2) \<Rightarrow> (Inl e, t1, w2)
                   | (Inr u, t1, w2) \<Rightarrow> cmd ex ''iceunpack'' ''my.bin my.asc'' None t1 w2)
             t w of
        (Inl e, t1, w1) \<Rightarrow> (Inl e, t1, w1)
      | (Inr u, t1, w1) \<Rightarrow> cmd ex ''icetime'' (''-tmd '' @ device t1 @ '' my.asc'') None t1 w1)"

text \<open>
  \<^verbatim>\<open>icetime_parse\<close> and \<^verbatim>\<open>yosys_ver\<close> are called in this file, which neither defines nor
  imports them: the module binds neither name, and the call raises \<open>NameError\<close>. The
  result that \<^verbatim>\<open>max_freq\<close> would take from the parser is the entry \<^verbatim>\<open>'max_freq'\<close> of a
  dictionary.
\<close>

definition icetime_parse :: "string list \<Rightarrow> error + (string \<rightharpoonup> 'f)" where
  "icetime_parse f = Inl NameError"

definition yosys_ver :: "error + string option" where
  "yosys_ver = Inl NameError"

definition Icecube2_max_freq :: "Icecube2_obj \<Rightarrow> world \<Rightarrow> error + 'f" where
  "Icecube2_max_freq t w =
     (case open_read w (out_dir t @ ''/icetime.txt'') of
        Inl e \<Rightarrow> Inl e
      | Inr f \<Rightarrow>
          (case icetime_parse f of
             Inl e \<Rightarrow> Inl e
           | Inr d \<Rightarrow> (case d ''max_freq'' of None \<Rightarrow> Inl KeyError | Some v \<Rightarrow> Inr v)))"




section \<open>The Radiant adapters\<close>

record Radiant_obj = Toolchain +
  radiantdir :: string
  radiant_cls :: radiant_class

fun Radiant_syn :: "radiant_class \<Rightarrow> string" where
  "Radiant_syn RadiantLSE = ''lse''"
| "Radiant_syn RadiantSynpro = ''synplify''"
| "Radiant_syn RadiantYosys = ''yosys-synpro''"

definition Radiant_run ::
  "process \<Rightarrow> module_consts \<Rightarrow> Radiant_obj \<Rightarrow> world
     \<Rightarrow> (error + unit) \<times> Radiant_obj \<times> world" where
  "Radiant_run ex m t w =
     (if (device t, package t) \<notin>
           set [(''up3k'', ''uwg30''), (''up5k'', ''uwg30''), (''up5k'', ''sg48'')]
      then (Inl AssertionError, t, w)
      else
     (case Timed ''bit-all''
             (\<lambda>t w.
                let env = (environ w)
                            (''SRCS'' \<mapsto> join_str '' '' (srcs t),
                             ''TOP'' \<mapsto> top_module t,
                             ''RADIANTDIR'' \<mapsto> radiantdir t,
                             ''RADDEV'' \<mapsto> device t @ ''-'' @ package t);
                    syn = Radiant_syn (radiant_cls t);
                    args = ''--syn '' @ syn;
                    args = (if truthy (strategy t)
                            then args @ '' --strategy '' @ (case strategy t of Some s \<Rightarrow> s | None \<Rightarrow> [])
                            else args)
                in case cmd ex (root_dir m @ ''/radiant.sh'') args (Some env) t w of
                     (Inl e, t1, w2) \<Rightarrow> (Inl e, t1, w2)
                   | (Inr u, t1, w2) \<Rightarrow> cmd ex ''iceunpack'' ''my.bin my.asc'' None t1 w2)
             t w of
        (Inl e, t1, w1) \<Rightarrow> (Inl e, t1, w1)
      | (Inr u, t1, w1) \<Rightarrow> cmd ex ''icetime'' ''-tmd up5k my.asc'' None t1 w1))"

definition Radiant_max_freq :: "Radiant_obj \<Rightarrow> world \<Rightarrow> error + 'f" where
  "Radiant_max_freq t w =
     (case open_read w (out_dir t @ ''/icetime.txt'') of
        Inl e \<Rightarrow> Inl e
      | Inr f \<Rightarrow>
          (case icetime_parse f of
             Inl e \<Rightarrow> Inl e
           | Inr d \<Rightarrow> (case d ''max_freq'' of None \<Rightarrow> Inl KeyError | Some v \<Rightarrow> Inr v)))"

fun radiant_ver_lines :: "string list \<Rightarrow> error + string" where
  "radiant_ver_lines [] = Inl AssertionError"
| "radiant_ver_lines (l # f) =
     (if py_find l ''ProductType'' = 0
      then (case index1 (split_on (CHR ''='') l) of Inl e \<Rightarrow> Inl e | Inr v \<Rightarrow> Inr (py_strip v))
      else radiant_ver_lines f)"

definition radiant_ver :: "Radiant_obj \<Rightarrow> world \<Rightarrow> error + string" where
  "radiant_ver t w =
     (case open_read w (radiantdir t @ ''/data/ispsys.ini'') of
        Inl e \<Rightarrow> Inl e
      | Inr f \<Rightarrow> radiant_ver_lines f)"

definition Radiant_versions ::
  "Radiant_obj \<Rightarrow> world \<Rightarrow> error + (string \<times> string option) list" where
  "Radiant_versions t w =
     (case yosys_ver of
        Inl e \<Rightarrow> Inl e
      | Inr y \<Rightarrow>
          (case radiant_ver t w of
             Inl e \<Rightarrow> Inl e
           | Inr r \<Rightarrow> Inr [(''yosys'', y), (''radiant'', Some r)]))"

section \<open>Configuration of an adapter\<close>

text \<open>
  The pairs of device and package that \<^verbatim>\<open>Radiant.run\<close> accepts: the list of its first
  statement.
\<close>

definition Radiant_supported :: "(string \<times> string) list" where
  "Radiant_supported = [(''up3k'', ''uwg30''), (''up5k'', ''uwg30''), (''up5k'', ''sg48'')]"

text \<open>The description of a project, as far as the configuration stores it.\<close>

record project_description =
  project_srcs :: "string list"
  project_top :: string

text \<open>
  Modelled from the spec: the method \<^verbatim>\<open>project\<close> of the base class \<^verbatim>\<open>Toolchain\<close> (the
  \<^verbatim>\<open>configure\<close> of the specification), which is not part of this file. It validates that
  the requested pair of device and package is supported by the flow and fails with
  \<open>UnsupportedTargetError\<close> if not; otherwise it stores the target, the sources, the top
  module and the output directory in the adapter. It changes nothing but the adapter. The
  first argument is the list of supported pairs that the flow declares, \<open>None\<close> for a flow
  that declares none.
\<close>

definition configure ::
  "(string \<times> string) list option \<Rightarrow> project_description \<Rightarrow> string \<Rightarrow> string \<Rightarrow> string
     \<Rightarrow> string \<Rightarrow> 'a Toolchain_scheme \<Rightarrow> world
     \<Rightarrow> (error + unit) \<times> 'a Toolchain_scheme \<times> world" where
  "configure supported pd fam dev pkg odir t w =
     (if (case supported of None \<Rightarrow> False | Some l \<Rightarrow> (dev, pkg) \<notin> set l)
      then (Inl UnsupportedTargetError, t, w)
      else (Inr (),
            t\<lparr>family := fam, device := dev, package := pkg, srcs := project_srcs pd,
               top_module := project_top pd, out_dir := odir\<rparr>,
            w))"

section \<open>Fixtures for the concrete instances\<close>

definition host0 :: world where
  "host0 = \<lparr> environ = [''PATH'' \<mapsto> ''/usr/bin:/opt/ice/bin''],
             fs = [''/usr/bin'' \<mapsto> Dir,
                   ''/opt/ice/bin/icetime'' \<mapsto> File True []],
             spawned = [], clock = 0, stdout = [] \<rparr>"

definition mod0 :: module_consts where
  "mod0 = load_module ''/repo'' Map.empty"

definition collab0 :: collab where
  "collab0 =
     \<lparr> c_check_env = (\<lambda>c w. Inr []),
       c_new = (\<lambda>c rd w. (Inl (OtherError ''stub''), w)),
       c_project = (\<lambda>pd f d p od op t w. (Inr t, w)),
       c_run = (\<lambda>t w. (Inr t, w)),
       c_print_stats = (\<lambda>t w. (Inr t, w)),
       c_write_metadata = (\<lambda>t w. (Inr (), w)),
       c_realpath = (\<lambda>w p. p),
       c_json_load = (\<lambda>f. Inl (OtherError ''stub'')) \<rparr>"

definition base0 :: Toolchain where
  "base0 = \<lparr> verbose = False, strategy = None, seed = None, carry = None, pcf = None,
             sdc = None, xdc = None, build = None, toolchain = None,
             family = ''ice40'', device = ''hx8k'', package = ''ct256'',
             srcs = [''a.v'', ''b.v''], top_module = ''top'', out_dir = ''/out'',
             runtimes = [], open_stages = [] \<rparr>"

definition ice0 :: Icecube2_obj where
  "ice0 = Toolchain.extend base0
            \<lparr> icecubedir = ''/opt/lscc/iCEcube2.2017.08'', icecube2_cls = Icecube2Yosys \<rparr>"

definition rad0 :: Radiant_obj where
  "rad0 = Toolchain.extend (base0\<lparr>device := ''up5k'', package := ''sg48''\<rparr>)
            \<lparr> radiantdir = ''/opt/lscc/radiant/1.0'', radiant_cls = RadiantLSE \<rparr>"

text \<open>Every external program succeeds, changes no file and takes one unit of time.\<close>

definition ex0 :: process where
  "ex0 = (\<lambda>prog args env f. (True, f, 1))"

definition pd0 :: project_description where
  "pd0 = \<lparr> project_srcs = [''a.v'', ''b.v''], project_top = ''top'' \<rparr>"

text \<open>
  An output directory whose \<^verbatim>\<open>my.asc\<close> has the version line of iCEcube2, and a Radiant
  installation whose \<^verbatim>\<open>ispsys.ini\<close> has the product line.
\<close>

definition host_ver :: world where
  "host_ver = \<lparr> environ = [''PATH'' \<mapsto> ''/usr/bin''],
                fs = [''/out/my.asc'' \<mapsto>
                        File False [''.comment'' @ [CHR 0x0A], ''Lattice'' @ [CHR 0x0A],
                                    ''iCEcube2 2017.08.27940'' @ [CHR 0x0A]],
                      ''/opt/lscc/radiant/1.0/data/ispsys.ini'' \<mapsto>
                        File False [''[Version]'' @ [CHR 0x0A],
                                    ''ProductType=1.0.0.350.6'' @ [CHR 0x0A]]],
                spawned = [], clock = 0, stdout = [] \<rparr>"

text \<open>A host on which \<^verbatim>\<open>/out\<close> is a regular file.\<close>

definition host_nodir :: world where
  "host_nodir = \<lparr> environ = [''PATH'' \<mapsto> ''/usr/bin''],
                  fs = [''/out'' \<mapsto> File False []],
                  spawned = [], clock = 0, stdout = [] \<rparr>"

text \<open>
  A search path on which \<^verbatim>\<open>icetime\<close> is a file without execute permission in the first
  directory and an executable file in the second, \<^verbatim>\<open>iceunpack\<close> a file without execute
  permission and \<^verbatim>\<open>yosys\<close> a directory.
\<close>

definition host_probe :: world where
  "host_probe = \<lparr> environ = [''PATH'' \<mapsto> ''/a:/b''],
                  fs = [''/a/icetime'' \<mapsto> File False [],
                        ''/b/icetime'' \<mapsto> File True [],
                        ''/a/iceunpack'' \<mapsto> File False [],
                        ''/b/yosys'' \<mapsto> Dir,
                        ''/opt/lscc/radiant/1.0'' \<mapsto> Dir],
                  spawned = [], clock = 0, stdout = [] \<rparr>"

text \<open>
  An output directory whose \<^verbatim>\<open>my.asc\<close> has no version line, with a timing report, and a
  Radiant installation whose \<^verbatim>\<open>ispsys.ini\<close> has no product line.
\<close>

definition host_out :: world where
  "host_out = host0\<lparr>fs := [''/out/my.asc'' \<mapsto> File False [''.comment'', ''Lattice''],
                          ''/out/icetime.txt'' \<mapsto> File False [''// Timing estimate''],
                          ''/opt/lscc/radiant/1.0/data/ispsys.ini'' \<mapsto> File False [''[Version]'']]\<rparr>"

text \<open>A host on which every requirement of the classes of this file is met.\<close>

definition host_full :: world where
  "host_full = host0\<lparr>environ := [''PATH'' \<mapsto> ''/b''],
                     fs := [''/opt/lscc/iCEcube2.2017.08'' \<mapsto> Dir,
                            ''/opt/lscc/radiant/1.0'' \<mapsto> Dir,
                            ''/b/yosys'' \<mapsto> File True [],
                            ''/b/icetime'' \<mapsto> File True [],
                            ''/b/iceunpack'' \<mapsto> File True []]\<rparr>"

text \<open>A source tree with an \<^verbatim>\<open>xdc\<close> file and no \<^verbatim>\<open>sdc\<close> file, and the converse.\<close>

definition host_xdc :: world where
  "host_xdc = host0\<lparr>fs := [''/repo/src/oneblink/xc7/a35tcsg324/vivado.xdc'' \<mapsto> File False []]\<rparr>"

definition host_sdc :: world where
  "host_sdc = host0\<lparr>fs := [''/repo/src/oneblink/xc7/a35tcsg324/vivado.sdc'' \<mapsto> File False []]\<rparr>"

section \<open>Notions used in the statements\<close>

text \<open>The commands spawned between two states of the host.\<close>

definition new_spawns :: "world \<Rightarrow> world \<Rightarrow> spawn list" where
  "new_spawns w w' = drop (length (spawned w)) (spawned w')"

text \<open>
  Presence of an executable on the host, read off the file system: some directory of the
  search path \<open>p\<close> holds a regular file of that name with execute permission.
\<close>

definition on_search_path :: "world \<Rightarrow> string \<Rightarrow> string \<Rightarrow> bool" where
  "on_search_path w p prog =
     list_ex (\<lambda>d. case fs w (os_path_join d prog) of Some (File x ls) \<Rightarrow> x | _ \<Rightarrow> False)
       (split_on (CHR '':'') p)"

text \<open>
  The time that a list of commands takes when they run one after the other, the first on
  the file system \<open>f\<close>.
\<close>

fun replay_time :: "process \<Rightarrow> (string \<rightharpoonup> node) \<Rightarrow> spawn list \<Rightarrow> nat" where
  "replay_time ex f [] = 0"
| "replay_time ex f (sp # sps) =
     (case ex (program sp) (argstr sp) (penv sp) f of
        (ok, f1, dt) \<Rightarrow> dt + replay_time ex f1 sps)"

section \<open>Entry checks of the orchestrator\<close>

lemma run_passes_entry:
  "fam = Some ''ice40'' \<or> fam = Some ''xc7'' \<Longrightarrow>
   (case sd of None \<Rightarrow> True | Some n \<Rightarrow> 1 \<le> n \<and> n \<le> 2 ^ 31 - 1) \<Longrightarrow>
   run X m fam (Some d) (Some p) (Some tn) (Some pr) odir oprefix vb strat sd cy bld w =
   run_body X m (the fam) d p tn pr odir oprefix vb strat sd cy bld w"
  by (auto simp: run_def split: option.splits)

text \<open>
  C10. \<^verbatim>\<open>run\<close> rejects every family other than \<^verbatim>\<open>'ice40'\<close> and \<^verbatim>\<open>'xc7'\<close>, and every
  call whose device, package, toolchain or project is \<^verbatim>\<open>None\<close>, with a failed
  assertion at entry: the host is as it was, and no collaborator (constructor, constraint
  lookup, external process) has been used, whatever the collaborators are.
\<close>

theorem run_rejects_bad_target_at_entry:
  assumes "(fam \<noteq> Some ''ice40'' \<and> fam \<noteq> Some ''xc7'') \<or> dev = None \<or> pkg = None
           \<or> tcn = None \<or> prj = None"
  shows "run X m fam dev pkg tcn prj odir oprefix vb strat sd cy bld w = (Inl AssertionError, w)"
  using assms by (auto simp: run_def split: option.splits)

theorem run_rejects_bad_target_at_entry_witness:
  "((Some ''ecp5'' \<noteq> Some ''ice40'' \<and> Some ''ecp5'' \<noteq> Some ''xc7'') \<or> Some ''hx8k'' = None
      \<or> Some ''ct256'' = None \<or> Some ''arachne'' = None \<or> Some ''oneblink'' = None)
   \<and> run collab0 mod0 (Some ''ecp5'') (Some ''hx8k'') (Some ''ct256'') (Some ''arachne'')
       (Some ''oneblink'') None None False None None None None host0
     = (Inl AssertionError, host0)"
  using run_rejects_bad_target_at_entry
          [of "Some ''ecp5''" "Some ''hx8k''" "Some ''ct256''" "Some ''arachne''"
              "Some ''oneblink''" collab0 mod0 None None False None None None None host0]
  by simp

text \<open>
  C6. A seed is accepted only when it is \<^verbatim>\<open>None\<close> or an integer between 1 and
  \<open>2^31 - 1\<close>: with any other seed \<^verbatim>\<open>run\<close> fails at entry with a failed assertion, the
  host unchanged and no collaborator used, whatever the other arguments are.
\<close>

theorem run_rejects_bad_seed_at_entry:
  assumes "n < 1 \<or> 2 ^ 31 - 1 < n"
  shows "run X m fam dev pkg tcn prj odir oprefix vb strat (Some n) cy bld w
         = (Inl AssertionError, w)"
  using assms by (auto simp: run_def split: option.splits)

theorem run_rejects_bad_seed_at_entry_witness:
  "((2147483648::int) < 1 \<or> 2 ^ 31 - 1 < (2147483648::int))
   \<and> run collab0 mod0 (Some ''ice40'') (Some ''hx8k'') (Some ''ct256'') (Some ''arachne'')
       (Some ''oneblink'') None None False None (Some 2147483648) None None host0
     = (Inl AssertionError, host0)"
  using run_rejects_bad_seed_at_entry
          [of 2147483648 collab0 mod0 "Some ''ice40''" "Some ''hx8k''" "Some ''ct256''"
              "Some ''arachne''" "Some ''oneblink''" None None False None None None host0]
  by simp

section \<open>Helper facts\<close>





lemma has_unmet_iff: "has_unmet vs \<longleftrightarrow> (\<exists>v\<in>set vs. \<not> v)"
  by (induction vs) auto

lemma is_exe_node:
  "is_exe w q = (case fs w q of Some (File x ls) \<Rightarrow> x | _ \<Rightarrow> False)"
  by (simp add: is_exe_def os_path_isfile_def os_access_X_OK_def split: option.splits node.splits)

lemma have_exec_bare:
  "fst (os_path_split prog) = [] \<Longrightarrow> environ w ''PATH'' = Some p \<Longrightarrow>
   have_exec w prog = Inr (on_search_path w p prog)"
  by (auto simp: have_exec_def which_def on_search_path_def find_None_iff list_ex_iff
                 is_exe_node split: prod.splits)

lemma env_ready_loop_True:
  "env_ready_loop other m w tcs = Inr True \<longleftrightarrow>
   (\<forall>tc\<in>set tcs. \<exists>d. check_env_of other m tc w = Inr d \<and> (\<forall>v\<in>set (map snd d). v))"
  by (induction tcs) (auto simp: has_unmet_iff split: sum.splits)

lemma env_ready_loop_False:
  "i < length tcs \<Longrightarrow>
   \<forall>j<i. \<exists>d. check_env_of other m (tcs ! j) w = Inr d \<Longrightarrow>
   check_env_of other m (tcs ! i) w = Inr d \<Longrightarrow> \<exists>v\<in>set (map snd d). \<not> v \<Longrightarrow>
   env_ready_loop other m w tcs = Inr False"
proof (induction tcs arbitrary: i)
  case Nil
  then show ?case by simp
next
  case (Cons tc tcs)
  show ?case
  proof (cases i)
    case 0
    with Cons.prems show ?thesis by (auto simp: has_unmet_iff)
  next
    case (Suc k)
    from Cons.prems(2) Suc obtain d0 where d0: "check_env_of other m tc w = Inr d0"
      by fastforce
    have "env_ready_loop other m w tcs = Inr False"
    proof (rule Cons.IH[of k])
      show "k < length tcs" using Cons.prems(1) Suc by simp
      show "\<forall>j<k. \<exists>d. check_env_of other m (tcs ! j) w = Inr d"
        using Cons.prems(2) Suc by fastforce
      show "check_env_of other m (tcs ! k) w = Inr d" using Cons.prems(3) Suc by simp
      show "\<exists>v\<in>set (map snd d). \<not> v" by (rule Cons.prems(4))
    qed
    then show ?thesis using d0 by simp
  qed
qed

lemma icecube2_run_stages:
  assumes "Icecube2_run ex m t w = (r, t', w')"
  shows "prefix (map (\<lambda>sp. (program sp, stages sp)) (new_spawns w w'))
           [(root_dir m @ ''/icecubed.sh'', ''bit-all'' # open_stages t),
            (''iceunpack'', ''bit-all'' # open_stages t),
            (''icetime'', open_stages t)]
         \<and> (r = Inr () \<longrightarrow> length (new_spawns w w') = 3)"
  using assms
  by (auto simp: Icecube2_run_def Timed_def cmd_def Let_def new_spawns_def
           split: prod.splits sum.splits if_splits)

lemma radiant_run_stages:
  assumes "Radiant_run ex m t w = (r, t', w')"
  shows "prefix (map (\<lambda>sp. (program sp, stages sp)) (new_spawns w w'))
           [(root_dir m @ ''/radiant.sh'', ''bit-all'' # open_stages t),
            (''iceunpack'', ''bit-all'' # open_stages t),
            (''icetime'', open_stages t)]
         \<and> (r = Inr () \<longrightarrow> length (new_spawns w w') = 3)"
  using assms
  by (auto simp: Radiant_run_def Timed_def cmd_def Let_def new_spawns_def
           split: prod.splits sum.splits if_splits)

lemma icecube2_run_time:
  assumes "Icecube2_run ex m t w = (Inr (), t', w')"
  shows "runtimes t' = runtimes t @
           [(''bit-all'' # open_stages t, replay_time ex (fs w) (take 2 (new_spawns w w')))]
         \<and> clock w' = clock w + replay_time ex (fs w) (new_spawns w w')"
  using assms
  by (auto simp: Icecube2_run_def Timed_def cmd_def Let_def new_spawns_def numeral_2_eq_2
           split: prod.splits sum.splits if_splits)

lemma radiant_run_time:
  assumes "Radiant_run ex m t w = (Inr (), t', w')"
  shows "runtimes t' = runtimes t @
           [(''bit-all'' # open_stages t, replay_time ex (fs w) (take 2 (new_spawns w w')))]
         \<and> clock w' = clock w + replay_time ex (fs w) (new_spawns w w')"
  using assms
  by (auto simp: Radiant_run_def Timed_def cmd_def Let_def new_spawns_def numeral_2_eq_2
           split: prod.splits sum.splits if_splits)

lemma icecube2_run_env:
  assumes "Icecube2_run ex m t w = (r, t', w')"
  shows "environ w' = environ w \<and>
         (let E = (environ w)(''SRCS'' \<mapsto> join_str '' '' (srcs t), ''TOP'' \<mapsto> top_module t,
                     ''ICECUBEDIR'' \<mapsto> icecubedir t,
                     ''ICEDEV'' \<mapsto> device t @ ''-'' @ package t)
          in prefix (map (\<lambda>sp. (program sp, env_arg sp, penv sp)) (new_spawns w w'))
               [(root_dir m @ ''/icecubed.sh'', Some E, E),
                (''iceunpack'', None, environ w),
                (''icetime'', None, environ w)])"
  using assms
  by (auto simp: Icecube2_run_def Timed_def cmd_def Let_def new_spawns_def
           split: prod.splits sum.splits if_splits)

lemma radiant_run_env:
  assumes "Radiant_run ex m t w = (r, t', w')"
  shows "environ w' = environ w \<and>
         (let E = (environ w)(''SRCS'' \<mapsto> join_str '' '' (srcs t), ''TOP'' \<mapsto> top_module t,
                     ''RADIANTDIR'' \<mapsto> radiantdir t,
                     ''RADDEV'' \<mapsto> device t @ ''-'' @ package t)
          in prefix (map (\<lambda>sp. (program sp, env_arg sp, penv sp)) (new_spawns w w'))
               [(root_dir m @ ''/radiant.sh'', Some E, E),
                (''iceunpack'', None, environ w),
                (''icetime'', None, environ w)])"
  using assms
  by (auto simp: Radiant_run_def Timed_def cmd_def Let_def new_spawns_def
           split: prod.splits sum.splits if_splits)

lemmas fixture_defs =
  host0_def mod0_def load_module_def os_getenv_def base0_def ice0_def rad0_def
  ex0_def pd0_def host_out_def host_full_def host_xdc_def host_sdc_def host_ver_def
  host_nodir_def host_probe_def Toolchain.extend_def collab0_def

lemmas probe_defs =
  have_exec_def which_def os_path_split_def os_path_join_def is_exe_def os_path_isfile_def
  os_access_X_OK_def os_path_exists_def on_search_path_def under_file_def open_read_def

lemmas run_defs =
  Icecube2_run_def Radiant_run_def Timed_def cmd_def truthy_def new_spawns_def Let_def

section \<open>Rejection of an unsupported target\<close>

lemma radiant_run_rejects:
  "(device t, package t) \<notin> set Radiant_supported \<Longrightarrow>
   Radiant_run ex m t w = (Inl AssertionError, t, w)"
  by (simp add: Radiant_run_def Radiant_supported_def)

lemma configure_accepts_supported:
  "(dev, pkg) \<in> set Radiant_supported \<Longrightarrow>
   fst (configure (Some Radiant_supported) pd fam dev pkg odir t w) = Inr ()"
  by (simp add: configure_def)

text \<open>
  C1. For the Radiant flow, whose list of supported pairs is (up3k, uwg30), (up5k, uwg30)
  and (up5k, sg48), the configuration step called with a pair outside the list fails with
  \<open>UnsupportedTargetError\<close> and leaves the adapter and the host as they were: no
  external process has been spawned and nothing else has happened. The check that this
  file itself makes agrees with it: \<^verbatim>\<open>run\<close> of a Radiant adapter that holds such a pair
  fails at its first statement, again with the adapter and the host unchanged.
\<close>

theorem configure_rejects_unsupported_target:
  assumes "(dev, pkg) \<notin> set Radiant_supported"
  shows "configure (Some Radiant_supported) pd fam dev pkg odir t w
           = (Inl UnsupportedTargetError, t, w)
         \<and> Radiant_run ex m (u\<lparr>device := dev, package := pkg\<rparr>) w
           = (Inl AssertionError, u\<lparr>device := dev, package := pkg\<rparr>, w)"
  using assms radiant_run_rejects [of "u\<lparr>device := dev, package := pkg\<rparr>" ex m w]
  by (simp add: configure_def)

theorem configure_rejects_unsupported_target_witness:
  "(''hx8k'', ''ct256'') \<notin> set Radiant_supported
   \<and> configure (Some Radiant_supported) pd0 ''ice40'' ''hx8k'' ''ct256'' ''/out'' rad0 host0
       = (Inl UnsupportedTargetError, rad0, host0)
   \<and> Radiant_run ex0 mod0 (rad0\<lparr>device := ''hx8k'', package := ''ct256''\<rparr>) host0
       = (Inl AssertionError, rad0\<lparr>device := ''hx8k'', package := ''ct256''\<rparr>, host0)
   \<and> fst (configure (Some Radiant_supported) pd0 ''ice40'' ''up5k'' ''sg48'' ''/out'' rad0 host0)
       = Inr ()"
  using configure_rejects_unsupported_target
          [of "''hx8k''" "''ct256''" pd0 "''ice40''" "''/out''" rad0 host0 ex0 mod0 rad0]
  by (simp add: Radiant_supported_def configure_def)

section \<open>The bit-all stage\<close>

text \<open>
  C2 (as amended). For the iCEcube2 and the Radiant adapters, \<^verbatim>\<open>run\<close> spawns at most three
  commands, in this order: the vendor script and \<^verbatim>\<open>iceunpack\<close>, both inside the stage
  \<^verbatim>\<open>bit-all\<close> opened by \<^verbatim>\<open>run\<close>, and then \<^verbatim>\<open>icetime\<close>, after that stage has been closed,
  with only the stages open that were open when \<^verbatim>\<open>run\<close> was called. A run that succeeds
  has spawned all three, and the duration that it records for \<^verbatim>\<open>bit-all\<close> is the time of
  the first two, while the run as a whole took the time of all three.
\<close>

theorem bit_all_excludes_icetime:
  "(Icecube2_run ex m t w = (r, t', w') \<longrightarrow>
      prefix (map (\<lambda>sp. (program sp, stages sp)) (new_spawns w w'))
        [(root_dir m @ ''/icecubed.sh'', ''bit-all'' # open_stages t),
         (''iceunpack'', ''bit-all'' # open_stages t),
         (''icetime'', open_stages t)]
      \<and> (r = Inr () \<longrightarrow>
           length (new_spawns w w') = 3
           \<and> runtimes t' = runtimes t @
               [(''bit-all'' # open_stages t,
                 replay_time ex (fs w) (take 2 (new_spawns w w')))]
           \<and> clock w' = clock w + replay_time ex (fs w) (new_spawns w w')))
   \<and> (Radiant_run ex m u w = (r2, u', w2) \<longrightarrow>
      prefix (map (\<lambda>sp. (program sp, stages sp)) (new_spawns w w2))
        [(root_dir m @ ''/radiant.sh'', ''bit-all'' # open_stages u),
         (''iceunpack'', ''bit-all'' # open_stages u),
         (''icetime'', open_stages u)]
      \<and> (r2 = Inr () \<longrightarrow>
           length (new_spawns w w2) = 3
           \<and> runtimes u' = runtimes u @
               [(''bit-all'' # open_stages u,
                 replay_time ex (fs w) (take 2 (new_spawns w w2)))]
           \<and> clock w2 = clock w + replay_time ex (fs w) (new_spawns w w2)))"
  using icecube2_run_stages [of ex m t w r t' w'] radiant_run_stages [of ex m u w r2 u' w2]
        icecube2_run_time [of ex m t w t' w'] radiant_run_time [of ex m u w u' w2]
  by auto

theorem bit_all_excludes_icetime_witness:
  "Icecube2_run ex0 mod0 ice0 host0
     = (Inr (), fst (snd (Icecube2_run ex0 mod0 ice0 host0)),
        snd (snd (Icecube2_run ex0 mod0 ice0 host0)))
   \<and> map (\<lambda>sp. (program sp, stages sp))
        (new_spawns host0 (snd (snd (Icecube2_run ex0 mod0 ice0 host0))))
      = [(''/repo/icecubed.sh'', [''bit-all'']), (''iceunpack'', [''bit-all'']), (''icetime'', [])]
   \<and> Radiant_run ex0 mod0 rad0 host0
     = (Inr (), fst (snd (Radiant_run ex0 mod0 rad0 host0)),
        snd (snd (Radiant_run ex0 mod0 rad0 host0)))
   \<and> map (\<lambda>sp. (program sp, stages sp))
        (new_spawns host0 (snd (snd (Radiant_run ex0 mod0 rad0 host0))))
      = [(''/repo/radiant.sh'', [''bit-all'']), (''iceunpack'', [''bit-all'']), (''icetime'', [])]"
  using bit_all_excludes_icetime
          [of ex0 mod0 ice0 host0 "Inr ()" "fst (snd (Icecube2_run ex0 mod0 ice0 host0))"
              "snd (snd (Icecube2_run ex0 mod0 ice0 host0))" rad0 "Inr ()"
              "fst (snd (Radiant_run ex0 mod0 rad0 host0))"
              "snd (snd (Radiant_run ex0 mod0 rad0 host0))"]
  by (simp add: run_defs fixture_defs)

text \<open>
  The last command of a run of the iCEcube2 adapter is \<^verbatim>\<open>icetime\<close>, spawned with no
  stage open; with three commands of one time unit each, the duration recorded for
  \<^verbatim>\<open>bit-all\<close> is two units.
\<close>

theorem icetime_runs_outside_bit_all:
  "program (last (spawned (snd (snd (Icecube2_run ex0 mod0 ice0 host0))))) = ''icetime''
   \<and> stages (last (spawned (snd (snd (Icecube2_run ex0 mod0 ice0 host0))))) = []
   \<and> runtimes (fst (snd (Icecube2_run ex0 mod0 ice0 host0))) = [([''bit-all''], 2)]
   \<and> clock (snd (snd (Icecube2_run ex0 mod0 ice0 host0))) = 3"
  by (simp add: run_defs fixture_defs)

section \<open>The environment of the external commands\<close>

text \<open>
  C4 (as amended). For the iCEcube2 and the Radiant adapters, \<^verbatim>\<open>run\<close> never changes the
  environment of the calling process. Only the vendor script is started with an
  environment of its own: a copy of the ambient environment with the four keys of the
  adapter set (\<^verbatim>\<open>SRCS\<close>, \<^verbatim>\<open>TOP\<close>, the installation directory, the device and package).
  \<^verbatim>\<open>iceunpack\<close> and \<^verbatim>\<open>icetime\<close> are started without an \<^verbatim>\<open>env\<close> argument and receive the
  ambient environment as it is.
\<close>

theorem subprocess_env_overlay:
  "(Icecube2_run ex m t w = (r, t', w') \<longrightarrow>
      environ w' = environ w \<and>
      (let E = (environ w)(''SRCS'' \<mapsto> join_str '' '' (srcs t), ''TOP'' \<mapsto> top_module t,
                  ''ICECUBEDIR'' \<mapsto> icecubedir t,
                  ''ICEDEV'' \<mapsto> device t @ ''-'' @ package t)
       in prefix (map (\<lambda>sp. (program sp, env_arg sp, penv sp)) (new_spawns w w'))
            [(root_dir m @ ''/icecubed.sh'', Some E, E),
             (''iceunpack'', None, environ w),
             (''icetime'', None, environ w)]))
   \<and> (Radiant_run ex m u w = (r2, u', w2) \<longrightarrow>
      environ w2 = environ w \<and>
      (let E = (environ w)(''SRCS'' \<mapsto> join_str '' '' (srcs u), ''TOP'' \<mapsto> top_module u,
                  ''RADIANTDIR'' \<mapsto> radiantdir u,
                  ''RADDEV'' \<mapsto> device u @ ''-'' @ package u)
       in prefix (map (\<lambda>sp. (program sp, env_arg sp, penv sp)) (new_spawns w w2))
            [(root_dir m @ ''/radiant.sh'', Some E, E),
             (''iceunpack'', None, environ w),
             (''icetime'', None, environ w)]))"
  using icecube2_run_env [of ex m t w r t' w'] radiant_run_env [of ex m u w r2 u' w2]
  by blast

theorem subprocess_env_overlay_witness:
  "Icecube2_run ex0 mod0 ice0 host0
     = (Inr (), fst (snd (Icecube2_run ex0 mod0 ice0 host0)),
        snd (snd (Icecube2_run ex0 mod0 ice0 host0)))
   \<and> environ (snd (snd (Icecube2_run ex0 mod0 ice0 host0))) = environ host0
   \<and> map (\<lambda>sp. (program sp, penv sp ''ICEDEV'', penv sp ''SRCS'', penv sp ''PATH''))
        (new_spawns host0 (snd (snd (Icecube2_run ex0 mod0 ice0 host0))))
      = [(''/repo/icecubed.sh'', Some ''hx8k-ct256'', Some ''a.v b.v'', Some ''/usr/bin:/opt/ice/bin''),
         (''iceunpack'', None, None, Some ''/usr/bin:/opt/ice/bin''),
         (''icetime'', None, None, Some ''/usr/bin:/opt/ice/bin'')]"
  using subprocess_env_overlay
          [of ex0 mod0 ice0 host0 "Inr ()" "fst (snd (Icecube2_run ex0 mod0 ice0 host0))"
              "snd (snd (Icecube2_run ex0 mod0 ice0 host0))" rad0 "Inr ()"
              "fst (snd (Radiant_run ex0 mod0 rad0 host0))"
              "snd (snd (Radiant_run ex0 mod0 rad0 host0))"]
  by (simp add: run_defs fixture_defs)


text \<open>
  The second command of a run of the Radiant adapter is \<^verbatim>\<open>iceunpack\<close>: it is given no
  environment, and none of the four keys of the adapter reaches it.
\<close>

theorem iceunpack_gets_no_overlay:
  "program (spawned (snd (snd (Radiant_run ex0 mod0 rad0 host0))) ! 1) = ''iceunpack''
   \<and> env_arg (spawned (snd (snd (Radiant_run ex0 mod0 rad0 host0))) ! 1) = None
   \<and> penv (spawned (snd (snd (Radiant_run ex0 mod0 rad0 host0))) ! 1) ''SRCS'' = None
   \<and> penv (spawned (snd (snd (Radiant_run ex0 mod0 rad0 host0))) ! 1) ''TOP'' = None
   \<and> penv (spawned (snd (snd (Radiant_run ex0 mod0 rad0 host0))) ! 1) ''RADIANTDIR'' = None
   \<and> penv (spawned (snd (snd (Radiant_run ex0 mod0 rad0 host0))) ! 1) ''RADDEV'' = None"
  by (simp add: run_defs fixture_defs)

section \<open>The timing report\<close>

text \<open>
  As the module binds no \<^verbatim>\<open>icetime_parse\<close>, \<^verbatim>\<open>max_freq\<close> returns no frequency on any host.
\<close>

lemma max_freq_never_returns:
  "Icecube2_max_freq t w \<noteq> Inr v" "Radiant_max_freq u w \<noteq> Inr v"
  by (simp_all add: Icecube2_max_freq_def Radiant_max_freq_def icetime_parse_def
        split: sum.splits)

text \<open>
  C8 (as amended). \<^verbatim>\<open>max_freq\<close> of the iCEcube2 and of the Radiant adapters opens
  \<^verbatim>\<open>icetime.txt\<close> in the output directory. When that file is absent the call fails with
  the error of the failed \<^verbatim>\<open>open\<close>, which is Python's \<open>FileNotFoundError\<close>, or
  \<open>NotADirectoryError\<close> when the path goes through a regular file; it returns no
  frequency.
\<close>

theorem max_freq_fails_without_report:
  "(fs w (out_dir t @ ''/icetime.txt'') = None \<longrightarrow>
      (Icecube2_max_freq t w :: error + 'f) =
        Inl (if under_file w (out_dir t @ ''/icetime.txt'') then NotADirectoryError
             else FileNotFoundError))
   \<and> (fs w (out_dir u @ ''/icetime.txt'') = None \<longrightarrow>
      (Radiant_max_freq u w :: error + 'f) =
        Inl (if under_file w (out_dir u @ ''/icetime.txt'') then NotADirectoryError
             else FileNotFoundError))"
  by (simp add: Icecube2_max_freq_def Radiant_max_freq_def open_read_def)

theorem max_freq_fails_without_report_witness:
  "fs host0 (out_dir ice0 @ ''/icetime.txt'') = None
   \<and> (Icecube2_max_freq ice0 host0 :: error + int) = Inl FileNotFoundError
   \<and> fs host0 (out_dir rad0 @ ''/icetime.txt'') = None
   \<and> (Radiant_max_freq rad0 host0 :: error + int) = Inl FileNotFoundError
   \<and> fs host_nodir (out_dir ice0 @ ''/icetime.txt'') = None
   \<and> (Icecube2_max_freq ice0 host_nodir :: error + int) = Inl NotADirectoryError"
  using max_freq_fails_without_report
          [where w = host0 and t = ice0 and u = rad0 and 'f = int]
        max_freq_fails_without_report
          [where w = host_nodir and t = ice0 and u = rad0 and 'f = int]
  by (simp add: under_file_def fixture_defs)

text \<open>
  With no \<^verbatim>\<open>icetime.txt\<close> in the output directory, the error of \<^verbatim>\<open>max_freq\<close> is
  \<open>FileNotFoundError\<close>, which is not the \<open>ReportMissingError\<close> of the specification.
\<close>

theorem max_freq_error_is_not_report_missing:
  "(Icecube2_max_freq ice0 host0 :: error + int) = Inl FileNotFoundError
   \<and> (Icecube2_max_freq ice0 host0 :: error + int) \<noteq> Inl ReportMissingError
   \<and> (Radiant_max_freq rad0 host0 :: error + int) = Inl FileNotFoundError
   \<and> (Radiant_max_freq rad0 host0 :: error + int) \<noteq> Inl ReportMissingError"
  by (simp add: Icecube2_max_freq_def Radiant_max_freq_def open_read_def under_file_def
        fixture_defs)

section \<open>Tool versions\<close>






section \<open>Capability reports\<close>

lemma split_bare [simp]:
  "fst (os_path_split ''icetime'') = []" "fst (os_path_split ''yosys'') = []"
  "fst (os_path_split ''iceunpack'') = []"
  by (simp_all add: os_path_split_def)

lemma have_exec_no_PATH:
  "fst (os_path_split prog) = [] \<Longrightarrow> environ w ''PATH'' = None \<Longrightarrow>
   have_exec w prog = Inl KeyError"
  by (auto simp: have_exec_def which_def split: prod.splits)

text \<open>
  On a host whose environment defines \<^verbatim>\<open>PATH\<close>, \<^verbatim>\<open>check_env\<close> of each class of this file
  returns a report with a fixed list of keys: the value of a directory key is the
  existence of the installation path, the value of an executable key is the presence of
  an executable regular file of that name in a directory of \<^verbatim>\<open>PATH\<close>. A file without
  execute permission or a directory of that name does not count.
\<close>

lemma check_env_with_search_path:
  assumes "environ w ''PATH'' = Some p"
  shows "Icecube2Synpro_check_env m w =
           Inr [(''ICECUBEDIR'', fs w (ICECUBEDIR_DEFAULT m) \<noteq> None),
                (''icetime'', on_search_path w p ''icetime'')]
         \<and> Icecube2LSE_check_env m w =
           Inr [(''ICECUBEDIR'', fs w (ICECUBEDIR_DEFAULT m) \<noteq> None),
                (''icetime'', on_search_path w p ''icetime'')]
         \<and> Icecube2Yosys_check_env m w =
           Inr [(''yosys'', on_search_path w p ''yosys''),
                (''ICECUBEDIR'', fs w (ICECUBEDIR_DEFAULT m) \<noteq> None),
                (''icetime'', on_search_path w p ''icetime'')]
         \<and> Radiant_check_env m w =
           Inr [(''RADIANTDIR'', fs w (RADIANTDIR_DEFAULT m) \<noteq> None),
                (''iceunpack'', on_search_path w p ''iceunpack''),
                (''icetime'', on_search_path w p ''icetime'')]"
  using assms
  by (simp add: Icecube2Synpro_check_env_def Icecube2LSE_check_env_def
                Icecube2Yosys_check_env_def Radiant_check_env_def os_path_exists_def
                have_exec_bare)

lemma check_env_on_host_probe:
  "Icecube2Yosys_check_env mod0 host_probe
     = Inr [(''yosys'', False), (''ICECUBEDIR'', False), (''icetime'', True)]
   \<and> Radiant_check_env mod0 host_probe
     = Inr [(''RADIANTDIR'', True), (''iceunpack'', False), (''icetime'', True)]"
  using check_env_with_search_path [of host_probe "''/a:/b''" mod0]
  by (simp add: on_search_path_def os_path_join_def fixture_defs)

text \<open>
  C5 (the code departs from the claim). On a host whose environment has no \<^verbatim>\<open>PATH\<close>,
  \<^verbatim>\<open>check_env\<close> of every class of this file raises \<open>KeyError\<close>, where the claim has it
  report each executable as missing.
\<close>

theorem check_env_raises_without_PATH:
  assumes "environ w ''PATH'' = None"
  shows "Icecube2Synpro_check_env m w = Inl KeyError
         \<and> Icecube2LSE_check_env m w = Inl KeyError
         \<and> Icecube2Yosys_check_env m w = Inl KeyError
         \<and> Radiant_check_env m w = Inl KeyError"
  using assms
  by (simp add: Icecube2Synpro_check_env_def Icecube2LSE_check_env_def
                Icecube2Yosys_check_env_def Radiant_check_env_def have_exec_no_PATH)

theorem check_env_raises_without_PATH_witness:
  "environ (host0\<lparr>environ := Map.empty\<rparr>) ''PATH'' = None
   \<and> Icecube2Synpro_check_env mod0 (host0\<lparr>environ := Map.empty\<rparr>) = Inl KeyError
   \<and> Radiant_check_env mod0 (host0\<lparr>environ := Map.empty\<rparr>) = Inl KeyError"
  using check_env_raises_without_PATH [of "host0\<lparr>environ := Map.empty\<rparr>" mod0]
  by simp

text \<open>
  \<^verbatim>\<open>env_ready\<close> returns \<open>True\<close> exactly when, for every registered class, \<^verbatim>\<open>check_env\<close>
  returns a report all of whose values are true; and an unmet requirement in the report
  of a registered class makes it return \<open>False\<close>, when the reports of the classes
  registered before it have been obtained.
\<close>

lemma env_ready_all_met:
  "(env_ready other m w = Inr True \<longleftrightarrow>
      (\<forall>tc\<in>set (map snd toolchains).
         \<exists>d. check_env_of other m tc w = Inr d \<and> (\<forall>v\<in>set (map snd d). v)))
   \<and> (i < length toolchains
        \<and> (\<forall>j<i. \<exists>d. check_env_of other m (snd (toolchains ! j)) w = Inr d)
        \<and> check_env_of other m (snd (toolchains ! i)) w = Inr d
        \<and> (\<exists>v\<in>set (map snd d). \<not> v)
      \<longrightarrow> env_ready other m w = Inr False)"
proof (intro conjI impI)
  show "env_ready other m w = Inr True \<longleftrightarrow>
      (\<forall>tc\<in>set (map snd toolchains).
         \<exists>d. check_env_of other m tc w = Inr d \<and> (\<forall>v\<in>set (map snd d). v))"
    unfolding env_ready_def by (rule env_ready_loop_True)
next
  assume a: "i < length toolchains
        \<and> (\<forall>j<i. \<exists>d. check_env_of other m (snd (toolchains ! j)) w = Inr d)
        \<and> check_env_of other m (snd (toolchains ! i)) w = Inr d
        \<and> (\<exists>v\<in>set (map snd d). \<not> v)"
  show "env_ready other m w = Inr False"
    unfolding env_ready_def
  proof (rule env_ready_loop_False [of i _ _ _ _ d])
    show "i < length (map snd toolchains)" using a by simp
    show "\<forall>j<i. \<exists>d. check_env_of other m (map snd toolchains ! j) w = Inr d"
      using a by simp
    show "check_env_of other m (map snd toolchains ! i) w = Inr d" using a by simp
    show "\<exists>v\<in>set (map snd d). \<not> v" using a by simp
  qed
qed

text \<open>
  C9 (the code departs from the claim). On a host whose environment has no \<^verbatim>\<open>PATH\<close>,
  and on which the classes registered before those of this file report every requirement
  as met, \<^verbatim>\<open>env_ready\<close> raises \<open>KeyError\<close>, where the claim has it return \<open>False\<close>: no
  executable of the classes of this file can be found on such a host.
\<close>

lemma env_ready_on_fixtures:
  "env_ready (c_check_env collab0) mod0 host_full = Inr True
   \<and> check_env_of (c_check_env collab0) mod0 (snd (toolchains ! 5)) host0
       = Inr [(''ICECUBEDIR'', False), (''icetime'', True)]
   \<and> env_ready (c_check_env collab0) mod0 host0 = Inr False"
  using env_ready_all_met [of "c_check_env collab0" mod0 host_full 0 "[]"]
        env_ready_all_met [of "c_check_env collab0" mod0 host0 5
                              "[(''ICECUBEDIR'', False), (''icetime'', True)]"]
  by (simp add: env_ready_def toolchains_def Icecube2Synpro_check_env_def
        Icecube2LSE_check_env_def Icecube2Yosys_check_env_def Radiant_check_env_def
        have_exec_def which_def os_path_split_def os_path_join_def is_exe_def
        os_path_isfile_def os_access_X_OK_def os_path_exists_def fixture_defs)

theorem env_ready_raises_without_PATH:
  assumes "environ w ''PATH'' = None"
    and "\<forall>c\<in>{Vivado, VivadoYosys, Arachne, VPR, Nextpnr}.
           \<exists>d. other c w = Inr d \<and> \<not> has_unmet (map snd d)"
  shows "env_ready other m w = Inl KeyError"
proof -
  have k: "Icecube2Synpro_check_env m w = Inl KeyError"
    using assms(1)
    by (simp add: Icecube2Synpro_check_env_def have_exec_no_PATH)
  from assms(2) show ?thesis
    by (auto simp: env_ready_def toolchains_def k)
qed

theorem env_ready_raises_without_PATH_witness:
  "environ (host0\<lparr>environ := Map.empty\<rparr>) ''PATH'' = None
   \<and> \<not> os_path_exists (host0\<lparr>environ := Map.empty\<rparr>) (ICECUBEDIR_DEFAULT mod0)
   \<and> env_ready (c_check_env collab0) mod0 (host0\<lparr>environ := Map.empty\<rparr>) = Inl KeyError"
  using env_ready_raises_without_PATH
          [of "host0\<lparr>environ := Map.empty\<rparr>" "c_check_env collab0" mod0]
  by (simp add: os_path_exists_def fixture_defs)

section \<open>Constraint paths stored by the orchestrator\<close>

lemma run_constraints_pcf_sdc:
  "run_constraints rp p s x t = Inr t' \<Longrightarrow>
   pcf t' = (if truthy p then map_option rp p else None)
   \<and> sdc t' = (if truthy s then map_option rp s else None)"
  by (auto simp: run_constraints_def realpath_opt_def truthy_def
           split: sum.splits option.splits if_splits)

text \<open>
  C7 (the code departs from the claim). With an \<^verbatim>\<open>xdc\<close> file present and no \<^verbatim>\<open>sdc\<close>
  file, the \<^verbatim>\<open>xdc\<close> field of the adapter is left \<^verbatim>\<open>None\<close>; with an \<^verbatim>\<open>sdc\<close> file present
  and no \<^verbatim>\<open>xdc\<close> file, the assignment of the \<^verbatim>\<open>xdc\<close> field raises \<open>TypeError\<close>: the
  condition of the third assignment tests \<^verbatim>\<open>sdc\<close>.
\<close>

theorem xdc_follows_sdc:
  "get_sdc mod0 host_xdc ''oneblink'' ''xc7'' ''a35t'' ''csg324'' ''vivado'' = None
   \<and> get_xdc mod0 host_xdc ''oneblink'' ''xc7'' ''a35t'' ''csg324'' ''vivado''
       = Some ''/repo/src/oneblink/xc7/a35tcsg324/vivado.xdc''
   \<and> map_sum id xdc
        (run_constraints id
           (get_pcf mod0 host_xdc ''oneblink'' ''xc7'' ''a35t'' ''csg324'' ''vivado'')
           (get_sdc mod0 host_xdc ''oneblink'' ''xc7'' ''a35t'' ''csg324'' ''vivado'')
           (get_xdc mod0 host_xdc ''oneblink'' ''xc7'' ''a35t'' ''csg324'' ''vivado'') base0)
       = Inr None
   \<and> get_sdc mod0 host_sdc ''oneblink'' ''xc7'' ''a35t'' ''csg324'' ''vivado''
       = Some ''/repo/src/oneblink/xc7/a35tcsg324/vivado.sdc''
   \<and> get_xdc mod0 host_sdc ''oneblink'' ''xc7'' ''a35t'' ''csg324'' ''vivado'' = None
   \<and> run_constraints id
        (get_pcf mod0 host_sdc ''oneblink'' ''xc7'' ''a35t'' ''csg324'' ''vivado'')
        (get_sdc mod0 host_sdc ''oneblink'' ''xc7'' ''a35t'' ''csg324'' ''vivado'')
        (get_xdc mod0 host_sdc ''oneblink'' ''xc7'' ''a35t'' ''csg324'' ''vivado'') base0
       = Inl TypeError"
  by (simp add: get_pcf_def get_sdc_def get_xdc_def get_constraint_def src_dir_def
        run_constraints_def realpath_opt_def truthy_def os_path_exists_def fixture_defs)

end
